theory Spec2Isabelle
  imports Complex_Main "HOL-Library.Multiset" "HOL-Library.Product_Lexorder"
begin

section \<open>Exceptions and results\<close>

text \<open>
  The Python exceptions that the embedded functions can raise. \<open>MadxException\<close> and
  \<open>SimulatorException\<close> are the two exception classes of the package itself (the
  configuration errors of the specification); the others are raised by the interpreter
  (\<open>IndexError\<close>, \<open>KeyError\<close>, \<open>AttributeError\<close>, \<open>NameError\<close>, \<open>TypeError\<close>) or by the
  template library (\<open>TemplateError\<close>).
\<close>

datatype error =
    IndexError
  | KeyError string
  | AttributeError string
  | NameError string
  | TypeError
  | TemplateError string
  | MadxException string
  | SimulatorException string


text \<open>Sequencing of computations that either raise or return a value.\<close>

fun and_then :: "error + 'a \<Rightarrow> ('a \<Rightarrow> error + 'b) \<Rightarrow> error + 'b" where
  "and_then (Inl x) f = Inl x"
| "and_then (Inr v) f = f v"

section \<open>manzoni/transfer.py: linear transfer matrices\<close>

text \<open>
  An element is a row of a numeric array, addressed through the column indices of
  \<open>constants.py\<close>. That module is not part of the sources at hand, so the indices are a
  parameter of every function. numpy's float64 entries are idealised as real numbers:
  \<open>sin\<close>, \<open>cos\<close>, \<open>tan\<close>, \<open>sinh\<close>, \<open>cosh\<close> and \<open>sqrt\<close> are the real functions, and rounding
  is not modelled. A matrix (\<open>np.array\<close> of five rows) is a list of rows.
\<close>

record constants =
  INDEX_ANGLE :: nat
  INDEX_LENGTH :: nat
  INDEX_E1 :: nat
  INDEX_E2 :: nat
  INDEX_K1 :: nat

type_synonym matrix = "real list list"

text \<open>\<open>e[i]\<close>: reading past the end of the array raises \<open>IndexError\<close>.\<close>

definition getitem :: "real list \<Rightarrow> nat \<Rightarrow> error + real" where
  "getitem e i = (if i < length e then Inr (e ! i) else Inl IndexError)"

text \<open>\<open>A @ B\<close> on two-dimensional arrays: rows of \<open>A\<close> against columns of \<open>B\<close>.\<close>

definition dot :: "real list \<Rightarrow> real list \<Rightarrow> real" where
  "dot u v = sum_list (map2 (*) u v)"

definition matmul :: "matrix \<Rightarrow> matrix \<Rightarrow> matrix" where
  "matmul A B = map (\<lambda>r. map (\<lambda>c. dot r c) (transpose B)) A"

text \<open>\<open>A @ v\<close> for a vector \<open>v\<close>: the action of a transfer matrix on phase-space coordinates.\<close>

definition matvec :: "matrix \<Rightarrow> real list \<Rightarrow> real list" where
  "matvec A v = map (\<lambda>r. dot r v) A"

definition eye5 :: matrix where
  "eye5 = [[1, 0, 0, 0, 0],
           [0, 1, 0, 0, 0],
           [0, 0, 1, 0, 0],
           [0, 0, 0, 1, 0],
           [0, 0, 0, 0, 1]]"

definition rotation :: "constants \<Rightarrow> real list \<Rightarrow> error + matrix" where
  "rotation K e =
     and_then (getitem e (INDEX_ANGLE K)) (\<lambda>angle.
       Inr [[cos angle, 0, - sin angle, 0, 0],
            [0, cos angle, 0, - sin angle, 0],
            [sin angle, 0, cos angle, 0, 0],
            [0, sin angle, 0, cos angle, 0],
            [0, 0, 0, 0, 1]])"

definition drift :: "constants \<Rightarrow> real list \<Rightarrow> error + matrix" where
  "drift K e =
     and_then (getitem e (INDEX_LENGTH K)) (\<lambda>len.
       Inr [[1, len, 0, 0, 0],
            [0, 1, 0, 0, 0],
            [0, 0, 1, len, 0],
            [0, 0, 0, 1, 0],
            [0, 0, 0, 0, 1]])"

definition sbend :: "constants \<Rightarrow> real list \<Rightarrow> error + matrix" where
  "sbend K e =
     and_then (getitem e (INDEX_ANGLE K)) (\<lambda>theta.
       if theta = 0 then drift K e
       else
         and_then (getitem e (INDEX_LENGTH K)) (\<lambda>len.
         and_then (getitem e (INDEX_E1 K)) (\<lambda>e1.
         and_then (getitem e (INDEX_E2 K)) (\<lambda>e2.
           let s = sin theta;
               c = cos theta;
               m_b = [[c, (len / theta) * s, 0, 0, (len / theta) * (1 - c)],
                      [- (theta / len) * s, c, 0, 0, s],
                      [0, 0, 1, len, 0],
                      [0, 0, 0, 1, 0],
                      [0, 0, 0, 0, 1]]
           in if e1 = 0 \<and> e2 = 0 then Inr m_b
              else
                let k1 = (- 1 / (len / theta)) * tan e1;
                    k2 = (- 1 / (len / theta)) * tan e2;
                    m_e1 = [[1, 0, 0, 0, 0],
                            [- k1, 1, 0, 0, 0],
                            [0, 0, 1, 0, 0],
                            [0, 0, k1, 1, 0],
                            [0, 0, 0, 0, 1]];
                    m_e2 = [[1, 0, 0, 0, 0],
                            [- k2, 1, 0, 0, 0],
                            [0, 0, 1, 0, 0],
                            [0, 0, k2, 1, 0],
                            [0, 0, 0, 0, 1]]
                in Inr (matmul (matmul m_e2 m_b) m_e1)))))"

definition quadrupole :: "constants \<Rightarrow> real list \<Rightarrow> error + matrix" where
  "quadrupole K e =
     and_then (getitem e (INDEX_LENGTH K)) (\<lambda>len.
     and_then (getitem e (INDEX_K1 K)) (\<lambda>k.
       if k > 0 then
         let k = sqrt k;
             kl = k * len;
             s = sin kl;
             c = cos kl;
             sh = sinh kl;
             ch = cosh kl
         in Inr [[c, (1 / k) * s, 0, 0, 0],
                 [- k * s, c, 0, 0, 0],
                 [0, 0, ch, (1 / k) * sh, 0],
                 [0, 0, k * sh, ch, 0],
                 [0, 0, 0, 0, 1]]
       else if k < 0 then
         let k = k * (- 1);
             k = sqrt k;
             kl = k * len;
             s = sin kl;
             c = cos kl;
             sh = sinh kl;
             ch = cosh kl
         in Inr [[ch, (1 / k) * sh, 0, 0, 0],
                 [k * sh, ch, 0, 0, 0],
                 [0, 0, c, (1 / k) * s, 0],
                 [0, 0, - k * s, c, 0],
                 [0, 0, 0, 0, 1]]
       else Inr eye5))"

subsection \<open>The matrices as the specification writes them\<close>

text \<open>
  The core bend matrix, the thin-edge matrix and the fringe coefficient, written from the
  words of the specification; the theorems below compare them with what \<open>sbend\<close>
  computes.
\<close>

definition spec_core_bend :: "real \<Rightarrow> real \<Rightarrow> matrix" where
  "spec_core_bend L \<theta> =
     [[cos \<theta>, (L / \<theta>) * sin \<theta>, 0, 0, (L / \<theta>) * (1 - cos \<theta>)],
      [- (\<theta> / L) * sin \<theta>, cos \<theta>, 0, 0, sin \<theta>],
      [0, 0, 1, L, 0],
      [0, 0, 0, 1, 0],
      [0, 0, 0, 0, 1]]"

definition spec_fringe :: "real \<Rightarrow> real \<Rightarrow> real \<Rightarrow> real" where
  "spec_fringe a L \<theta> = - tan a / (L / \<theta>)"

definition spec_thin_edge :: "real \<Rightarrow> matrix" where
  "spec_thin_edge k =
     [[1, 0, 0, 0, 0],
      [- k, 1, 0, 0, 0],
      [0, 0, 1, 0, 0],
      [0, 0, k, 1, 0],
      [0, 0, 0, 0, 1]]"

definition spec_drift :: "real \<Rightarrow> matrix" where
  "spec_drift L =
     [[1, L, 0, 0, 0],
      [0, 1, 0, 0, 0],
      [0, 0, 1, L, 0],
      [0, 0, 0, 1, 0],
      [0, 0, 0, 0, 1]]"

text \<open>The two transverse 2x2 blocks of a 5x5 matrix.\<close>

definition block :: "nat \<Rightarrow> matrix \<Rightarrow> matrix" where
  "block i M = [[M ! i ! i, M ! i ! Suc i], [M ! Suc i ! i, M ! Suc i ! Suc i]]"

definition spec_trig_block :: "real \<Rightarrow> real \<Rightarrow> matrix" where
  "spec_trig_block \<kappa> L = [[cos (\<kappa> * L), sin (\<kappa> * L) / \<kappa>], [- \<kappa> * sin (\<kappa> * L), cos (\<kappa> * L)]]"

definition spec_hyp_block :: "real \<Rightarrow> real \<Rightarrow> matrix" where
  "spec_hyp_block \<kappa> L = [[cosh (\<kappa> * L), sinh (\<kappa> * L) / \<kappa>], [\<kappa> * sinh (\<kappa> * L), cosh (\<kappa> * L)]]"

definition K0 :: constants where
  "K0 = \<lparr>INDEX_ANGLE = 0, INDEX_LENGTH = 1, INDEX_E1 = 2, INDEX_E2 = 3, INDEX_K1 = 4\<rparr>"

section \<open>madx/madx.py: the MAD-X wrapper\<close>

subsection \<open>Python values, table rows and tables\<close>

text \<open>
  A cell of a pandas table, or a scalar argument of a call: \<open>None\<close>, the float NaN, a
  float (idealised as a real number), an int or a string.
\<close>

datatype pyval = PNone | PNaN | PFloat real | PInt int | PStr string

fun is_none :: "pyval \<Rightarrow> bool" where
  "is_none PNone = True"
| "is_none _ = False"


text \<open>\<open>pd.isnull\<close>, \<open>pd.notnull\<close> and \<open>np.isnan\<close>; the last raises \<open>TypeError\<close> on a value that
  is not a number.\<close>

fun pd_isnull :: "pyval \<Rightarrow> bool" where
  "pd_isnull PNone = True"
| "pd_isnull PNaN = True"
| "pd_isnull _ = False"

definition pd_notnull :: "pyval \<Rightarrow> bool" where
  "pd_notnull v = (\<not> pd_isnull v)"

fun np_isnan :: "pyval \<Rightarrow> error + bool" where
  "np_isnan PNaN = Inr True"
| "np_isnan (PFloat _) = Inr False"
| "np_isnan (PInt _) = Inr False"
| "np_isnan _ = Inl TypeError"

text \<open>\<open>a == b\<close>: numbers compare by value across int and float, NaN equals nothing.\<close>

fun num_of :: "pyval \<Rightarrow> real option" where
  "num_of (PFloat r) = Some r"
| "num_of (PInt i) = Some (of_int i)"
| "num_of _ = None"

definition py_eq :: "pyval \<Rightarrow> pyval \<Rightarrow> bool" where
  "py_eq a b = (case (num_of a, num_of b) of
                  (Some x, Some y) \<Rightarrow> x = y
                | _ \<Rightarrow> a = b \<and> a \<noteq> PNaN)"

text \<open>\<open>str\<close> of an int, in decimal.\<close>

fun str_nat :: "nat \<Rightarrow> string" where
  "str_nat n = (if n < 10 then [''0123456789'' ! n]
                else str_nat (n div 10) @ [''0123456789'' ! (n mod 10)])"

declare str_nat.simps [simp del]

definition str_int :: "int \<Rightarrow> string" where
  "str_int i = (if i < 0 then ''-'' @ str_nat (nat (- i)) else str_nat (nat i))"

text \<open>\<open>sep.join(xs)\<close> and \<open>s.strip(chars)\<close>.\<close>

fun join :: "string \<Rightarrow> string list \<Rightarrow> string" where
  "join sep [] = []"
| "join sep [x] = x"
| "join sep (x # y # ys) = x @ sep @ join sep (y # ys)"

definition strip :: "string \<Rightarrow> string \<Rightarrow> string" where
  "strip chars s =
     rev (dropWhile (\<lambda>c. c \<in> set chars) (rev (dropWhile (\<lambda>c. c \<in> set chars) s)))"

text \<open>\<open>s.split(sep)\<close> for a separator of one character, and the search for a literal
  (\<open>re.search\<close> with a pattern of literals).\<close>

fun split :: "char \<Rightarrow> string \<Rightarrow> string list" where
  "split sep [] = [[]]"
| "split sep (c # cs) =
     (if c = sep then [] # split sep cs
      else (case split sep cs of [] \<Rightarrow> [[c]] | w # ws \<Rightarrow> (c # w) # ws))"

fun startswith :: "string \<Rightarrow> string \<Rightarrow> bool" where
  "startswith s [] = True"
| "startswith [] (p # ps) = False"
| "startswith (c # cs) (p # ps) = (c = p \<and> startswith cs ps)"

fun re_search :: "string \<Rightarrow> string \<Rightarrow> bool" where
  "re_search p [] = (p = [])"
| "re_search p (c # cs) = (startswith (c # cs) p \<or> re_search p cs)"

text \<open>
  A \<open>pandas.Series\<close>: the row label \<open>e.name\<close> and the cells by column name.
  \<open>e.get(k, d)\<close> gives the default for a missing column, \<open>e[k]\<close> raises \<open>KeyError\<close> and the
  attribute access \<open>e.CLASS\<close> raises \<open>AttributeError\<close>.
\<close>

record series =
  name :: pyval
  items :: "(string \<times> pyval) list"

definition get :: "series \<Rightarrow> string \<Rightarrow> pyval \<Rightarrow> pyval" where
  "get e k d = (case map_of (items e) k of None \<Rightarrow> d | Some v \<Rightarrow> v)"

definition item :: "series \<Rightarrow> string \<Rightarrow> error + pyval" where
  "item e k = (case map_of (items e) k of None \<Rightarrow> Inl (KeyError k) | Some v \<Rightarrow> Inr v)"

definition getattr :: "series \<Rightarrow> string \<Rightarrow> error + pyval" where
  "getattr e k = (case map_of (items e) k of None \<Rightarrow> Inl (AttributeError k) | Some v \<Rightarrow> Inr v)"

text \<open>
  A \<open>pandas.DataFrame\<close> with the attributes \<open>name\<close> and \<open>length\<close> that a beamline gives to
  its table: the column names and the rows, each a label and its cells in column order.
\<close>

record dataframe =
  df_name :: pyval
  df_length :: pyval
  columns :: "string list"
  rows :: "(pyval \<times> pyval list) list"

definition row_series :: "dataframe \<Rightarrow> pyval \<times> pyval list \<Rightarrow> series" where
  "row_series df r = \<lparr>name = fst r, items = zip (columns df) (snd r)\<rparr>"

definition iterrows :: "dataframe \<Rightarrow> series list" where
  "iterrows df = map (row_series df) (rows df)"



text \<open>The results of a list of computations, or the first exception.\<close>

fun collect :: "(error + 'a) list \<Rightarrow> error + 'a list" where
  "collect [] = Inr []"
| "collect (x # xs) = and_then x (\<lambda>v. and_then (collect xs) (\<lambda>vs. Inr (v # vs)))"

text \<open>
  What the functions take from outside the sources: \<open>str\<close> of a float, the command
  grammar \<open>madx_syntax\<close> of \<open>grammar.py\<close> with \<open>str.format\<close> on its templates, the rendering
  of the template library (\<open>Inl\<close> carries the message of the exception it raises), the
  search for the executable, and the engine itself (the output of the subprocess for an
  executable and its standard input).
\<close>

datatype arg = Val pyval | Row series | ListOf "pyval list" | DictOf "(string \<times> pyval) list"
  | Object string

record env =
  repr_float :: "real \<Rightarrow> string"
  madx_syntax :: "string \<Rightarrow> string option"
  str_format :: "string \<Rightarrow> arg list \<Rightarrow> string"
  jinja2_render :: "string \<Rightarrow> (string \<times> pyval) list \<Rightarrow> string + string"
  which :: "string option \<Rightarrow> string \<Rightarrow> string option"
  communicate :: "string \<Rightarrow> string \<Rightarrow> string"

definition py_str :: "env \<Rightarrow> pyval \<Rightarrow> string" where
  "py_str E v = (case v of
       PNone \<Rightarrow> ''None''
     | PNaN \<Rightarrow> ''nan''
     | PFloat r \<Rightarrow> repr_float E r
     | PInt i \<Rightarrow> str_int i
     | PStr s \<Rightarrow> s)"

subsection \<open>element_to_mad and sequence_to_mad\<close>

definition SUPPORTED_PROPERTIES :: "string list" where
  "SUPPORTED_PROPERTIES =
     [''APERTYPE'', ''E1'', ''E2'', ''FINT'', ''HGAP'', ''THICK'', ''TILT'',
      ''K1'', ''K2'', ''K3'', ''K1S'', ''K2S'', ''K3S'']"

definition SUPPORTED_CLASSES :: "string list" where
  "SUPPORTED_CLASSES =
     [''QUADRUPOLE'', ''RBEND'', ''SBEND'', ''SEXTUPOLE'', ''OCTUPOLE'', ''MARKER'',
      ''COLLIMATOR'', ''INSTRUMENT'']"

text \<open>The guard \<open>e.get(k) is not None and not np.isnan(e[k])\<close> of the two angle branches.\<close>

definition not_none_and_not_nan :: "series \<Rightarrow> string \<Rightarrow> error + bool" where
  "not_none_and_not_nan e k =
     (if \<not> is_none (get e k PNone)
      then and_then (item e k) (\<lambda>v. and_then (np_isnan v) (\<lambda>b. Inr (\<not> b)))
      else Inr False)"

definition element_to_mad :: "env \<Rightarrow> series \<Rightarrow> error + string" where
  "element_to_mad E e =
     and_then (getattr e ''CLASS'') (\<lambda>cls.
     if cls \<notin> set (map PStr SUPPORTED_CLASSES) then Inr ''''
     else
       let mad = py_str E (name e) @ '': '' @ py_str E cls @ '', '' in
       and_then (not_none_and_not_nan e ''BENDING_ANGLE'') (\<lambda>bending.
       and_then
         (if bending
          then and_then (item e ''BENDING_ANGLE'') (\<lambda>a. Inr (mad @ ''ANGLE='' @ py_str E a @ '',''))
          else
            and_then (not_none_and_not_nan e ''ANGLE'') (\<lambda>angle.
              if angle then Inr (mad @ ''ANGLE='' @ py_str E (get e ''ANGLE'' (PInt 0)) @ '','')
              else Inr (mad @ '''')))
         (\<lambda>mad.
       and_then
         (collect (map (\<lambda>p. and_then (item e p) (\<lambda>v. Inr (p @ ''='' @ py_str E v)))
                    (filter (\<lambda>p. pd_notnull (get e p PNone)) SUPPORTED_PROPERTIES)))
         (\<lambda>props.
       let mad = mad @ join '', '' props in
       and_then (item e ''LENGTH'') (\<lambda>len.
       let mad = (if pd_notnull len \<and> \<not> py_eq len (PFloat 0)
                  then mad @ '', L='' @ py_str E len else mad) in
       and_then
         (if pd_notnull (get e ''APERTYPE'' PNone)
          then and_then (item e ''APERTURE'')
                 (\<lambda>a. Inr (mad @ '', APERTURE='' @ strip ''[]'' (py_str E a)))
          else Inr mad)
         (\<lambda>mad.
       and_then
         (if pd_notnull (get e ''PLUG'' PNone) \<and> pd_notnull (get e ''CIRCUIT'' PNone)
             \<and> pd_isnull (get e ''VALUE'' PNone)
          then and_then (item e ''PLUG'') (\<lambda>p. and_then (item e ''CIRCUIT'') (\<lambda>c.
                 Inr (mad @ '', '' @ py_str E p @ '':='' @ py_str E c)))
          else Inr mad)
         (\<lambda>mad.
       and_then
         (if pd_notnull (get e ''PLUG'' PNone) \<and> pd_notnull (get e ''VALUE'' PNone)
          then and_then (item e ''PLUG'') (\<lambda>p. and_then (item e ''VALUE'') (\<lambda>v.
                 Inr (mad @ '', '' @ py_str E p @ ''='' @ py_str E v)))
          else Inr mad)
         (\<lambda>mad.
       and_then (item e ''AT_CENTER'') (\<lambda>center.
       let mad = mad @ '', AT='' @ py_str E center;
           mad = mad @ '';''
       in Inr mad)))))))))"



subsection \<open>The class Madx\<close>

text \<open>
  A beamline has a name, a length and its table \<open>line\<close>. The state of a wrapper is the
  input buffer \<open>_input\<close>, what the last run left (\<open>_output\<close>, \<open>_warnings\<close>, \<open>_fatals\<close>,
  \<open>_last_context\<close>), the attached beamlines, and the path and name of the executable.
  Two more fields record what the wrapper does to the outside: the texts it prints and
  the subprocesses it starts (executable and standard input).
\<close>

record beamline =
  bl_name :: pyval
  bl_length :: pyval
  line :: "dataframe option"

record madx =
  self_input :: string
  self_output :: "string option"
  self_warnings :: "string list"
  self_fatals :: "string list"
  self_last_context :: "(string \<times> pyval) list option"
  self_beamlines :: "beamline list"
  self_path :: "string option"
  self_exec :: string
  printed :: "string list"
  spawned :: "(string \<times> string) list"

text \<open>A method either raises, or returns; in both cases the wrapper keeps the state that
  the method left.\<close>

datatype outcome = Raise error madx | Return madx

fun then_do :: "outcome \<Rightarrow> (madx \<Rightarrow> outcome) \<Rightarrow> outcome" where
  "then_do (Raise x m) f = Raise x m"
| "then_do (Return m) f = f m"

definition EXECUTABLE_NAME :: string where
  "EXECUTABLE_NAME = ''madx''"

text \<open>
  The base class \<open>Simulator\<close> (\<open>simulator.py\<close>) is not among the sources. Its three
  operations are written from section 4.3 of the specification.
\<close>

text \<open>Modelled from the spec: \<open>Simulator._get_exec\<close> determines the path or name of the
  executable and yields none if it is unresolved.\<close>

definition get_exec :: "env \<Rightarrow> madx \<Rightarrow> string option" where
  "get_exec E m = which E (self_path m) (self_exec m)"

text \<open>Modelled from the spec: \<open>Simulator._add_input\<close> looks the command template up by name
  in the grammar and appends its rendered text to the buffer; an unknown name is the
  \<open>KeyError\<close> of the lookup.\<close>

definition add_input :: "env \<Rightarrow> madx \<Rightarrow> string \<Rightarrow> arg list \<Rightarrow> outcome" where
  "add_input E m keyword args =
     (case madx_syntax E keyword of
        None \<Rightarrow> Raise (KeyError keyword) m
      | Some template \<Rightarrow> Return (m\<lparr>self_input := self_input m @ str_format E template args\<rparr>))"



text \<open>\<open>Madx.run\<close>, with the keyword arguments \<open>context\<close> (default \<open>{}\<close>) and \<open>debug\<close> (default
  \<open>False\<close>, that is 0).\<close>

record run_kwargs =
  kw_context :: "(string \<times> pyval) list option"
  kw_debug :: "int option"

definition no_executable :: string where
  "no_executable =
     ''Can'' @ [CHR 0x27] @ ''t run MADX if no valid path and executable are defined.''"

definition run :: "env \<Rightarrow> madx \<Rightarrow> run_kwargs \<Rightarrow> outcome" where
  "run E m kwargs =
     (case madx_syntax E ''stop'' of
        None \<Rightarrow> Raise (KeyError ''stop'') m
      | Some stop \<Rightarrow>
          let m = m\<lparr>self_input := self_input m @ stop\<rparr>;
              ctx = (case kw_context kwargs of None \<Rightarrow> [] | Some c \<Rightarrow> c);
              dbg = (case kw_debug kwargs of None \<Rightarrow> 0 | Some d \<Rightarrow> d)
          in (case jinja2_render E (self_input m) ctx of
                Inl msg \<Rightarrow> Raise (TemplateError msg) m
              | Inr template_input \<Rightarrow>
                  let m = (if dbg \<ge> 2 then m\<lparr>printed := printed m @ [template_input]\<rparr> else m)
                  in (case get_exec E m of
                        None \<Rightarrow> Raise (MadxException no_executable) m
                      | Some exe \<Rightarrow>
                          let out = communicate E exe template_input;
                              m = m\<lparr>spawned := spawned m @ [(exe, template_input)]\<rparr>;
                              m = m\<lparr>self_output := Some out\<rparr>;
                              m = m\<lparr>self_warnings :=
                                     filter (\<lambda>l. re_search ''warning'' l \<or> re_search ''fatal'' l)
                                       (split (CHR 0x0A) out)\<rparr>;
                              m = m\<lparr>self_fatals :=
                                     filter (\<lambda>l. re_search ''fatal'' l) (split (CHR 0x0A) out)\<rparr>;
                              m = m\<lparr>self_last_context := Some ctx\<rparr>;
                              m = (if dbg \<noteq> 0 then m\<lparr>printed := printed m @ [out]\<rparr> else m)
                          in Return m)))"

text \<open>\<open>raw\<close>, \<open>use_sequence\<close> and \<open>makethin\<close> (keyword arguments \<open>style\<close>, \<open>dipole_slices\<close>,
  \<open>quadrupole_slices\<close>).\<close>

definition raw :: "madx \<Rightarrow> string \<Rightarrow> outcome" where
  "raw m r = Return (m\<lparr>self_input := self_input m @ r @ ''\<newline>''\<rparr>)"

definition use_sequence :: "env \<Rightarrow> madx \<Rightarrow> pyval \<Rightarrow> outcome" where
  "use_sequence E m sequence = add_input E m ''use_sequence'' [Val sequence]"

record makethin_kwargs =
  kw_style :: "pyval option"
  kw_dipole_slices :: "pyval option"
  kw_quadrupole_slices :: "pyval option"

definition makethin :: "env \<Rightarrow> madx \<Rightarrow> pyval \<Rightarrow> makethin_kwargs \<Rightarrow> outcome" where
  "makethin E m sequence kwargs =
     (let style = (case kw_style kwargs of None \<Rightarrow> PStr ''TEAPOT'' | Some v \<Rightarrow> v);
          dipole_slices = (case kw_dipole_slices kwargs of None \<Rightarrow> PInt 4 | Some v \<Rightarrow> v);
          quadrupole_slices = (case kw_quadrupole_slices kwargs of None \<Rightarrow> PInt 4 | Some v \<Rightarrow> v);
          m = m\<lparr>self_input := self_input m
                  @ ''SELECT, FLAG=makethin, CLASS=quadrupole, THICK=false, SLICE=''
                  @ py_str E quadrupole_slices @ '';\<newline>''\<rparr>;
          m = m\<lparr>self_input := self_input m
                  @ ''SELECT, FLAG=makethin, CLASS=rbend, THICK=false, SLICE=''
                  @ py_str E dipole_slices @ '';\<newline>''\<rparr>
      in then_do (add_input E m ''makethin'' [Val sequence, Val style]) (\<lambda>m.
           use_sequence E m sequence))"

text \<open>
  \<open>__add_particles_for_tracking\<close>: nothing is added when the columns of the particle
  table are a proper subset of the five coordinates; otherwise one command per row.
\<close>

fun add_each :: "env \<Rightarrow> string \<Rightarrow> madx \<Rightarrow> series list \<Rightarrow> outcome" where
  "add_each E keyword m [] = Return m"
| "add_each E keyword m (r # rs) =
     then_do (add_input E m keyword [Row r]) (\<lambda>m. add_each E keyword m rs)"

definition add_particles_for_tracking :: "env \<Rightarrow> madx \<Rightarrow> dataframe \<Rightarrow> bool \<Rightarrow> outcome" where
  "add_particles_for_tracking E m particles ptc =
     (if set (columns particles) \<subset> set [''X'', ''PX'', ''Y'', ''PY'', ''DPP'']
      then Return m
      else add_each E (if ptc then ''ptc_start'' else ''start_particle'') m (iterrows particles))"

text \<open>\<open>__generate_observation_points\<close>, and its application to every row of the line.\<close>

definition generate_observation_points :: "env \<Rightarrow> madx \<Rightarrow> series \<Rightarrow> pyval \<Rightarrow> outcome" where
  "generate_observation_points E m e len =
     (case item e ''AT_EXIT'' of
        Inl x \<Rightarrow> Raise x m
      | Inr v \<Rightarrow> if \<not> py_eq v len then add_input E m ''observe'' [Val (name e)] else Return m)"

fun observe_each :: "env \<Rightarrow> pyval \<Rightarrow> madx \<Rightarrow> series list \<Rightarrow> outcome" where
  "observe_each E len m [] = Return m"
| "observe_each E len m (e # es) =
     then_do (generate_observation_points E m e len) (\<lambda>m. observe_each E len m es)"

text \<open>
  Attribute lookup on \<open>self\<close> for a method that takes a particle table. Inside the class
  body a name with two leading underscores is mangled, so that the private method is the
  attribute \<open>_Madx__add_particles_for_tracking\<close>; it is the only such method of \<open>Madx\<close>.
\<close>

definition Madx_particle_methods ::
    "(string \<times> (env \<Rightarrow> madx \<Rightarrow> dataframe \<Rightarrow> outcome)) list" where
  "Madx_particle_methods =
     [(''_Madx__add_particles_for_tracking'',
       \<lambda>E m particles. add_particles_for_tracking E m particles False)]"

text \<open>Modelled from the spec: the attributes that \<open>Madx\<close> inherits from \<open>Simulator\<close>, which is
  not among the sources. Section 4.3 of the specification gives it the operations attach,
  add templated command and resolve executable, none of which takes a particle table.\<close>

definition Simulator_particle_methods ::
    "(string \<times> (env \<Rightarrow> madx \<Rightarrow> dataframe \<Rightarrow> outcome)) list" where
  "Simulator_particle_methods = []"

definition call_method :: "env \<Rightarrow> madx \<Rightarrow> string \<Rightarrow> dataframe \<Rightarrow> outcome" where
  "call_method E m attr particles =
     (case map_of (Madx_particle_methods @ Simulator_particle_methods) attr of
        None \<Rightarrow> Raise (AttributeError attr) m
      | Some method \<Rightarrow> method E m particles)"

text \<open>\<open>__madx_track\<close>: the plain tracking variant. Its statement
  \<open>self._add_particles_for_tracking(particles)\<close> names the attribute with one underscore.\<close>

definition madx_track :: "env \<Rightarrow> madx \<Rightarrow> dataframe \<Rightarrow> beamline \<Rightarrow> makethin_kwargs \<Rightarrow> outcome" where
  "madx_track E m particles beamline kwargs =
     (if length (rows particles) = 0
      then Return (m\<lparr>printed := printed m @ [''No particles to track... Doing nothing.'']\<rparr>)
      else
        then_do (makethin E m (bl_name beamline) kwargs) (\<lambda>m.
        then_do (add_input E m ''track_beamline'' []) (\<lambda>m.
        then_do (call_method E m ''_add_particles_for_tracking'' particles) (\<lambda>m.
        then_do (case line beamline of
                   None \<Rightarrow> Raise (AttributeError ''apply'') m
                 | Some df \<Rightarrow> observe_each E (bl_length beamline) m (iterrows df)) (\<lambda>m.
        then_do (add_input E m ''run_track_beamline'' []) (\<lambda>m.
        add_input E m ''end_track'' []))))))"

text \<open>
  \<open>match\<close>, with the keyword arguments \<open>sequence\<close>, \<open>vary\<close> and \<open>constraints\<close>: a field is
  \<open>None\<close> when the argument is absent (\<open>kwargs.get\<close> then gives \<open>None\<close>). The last statement
  reads the name \<open>sequence\<close>; the names in scope there are the locals of \<open>match\<close> and the
  globals of the module (no builtin has that name), and a name in no scope raises
  \<open>NameError\<close>.
\<close>

record match_kwargs =
  kw_sequence :: "pyval option"
  kw_vary :: "pyval list option"
  kw_constraints :: "(string \<times> pyval) list option"

definition module_globals :: "string list" where
  "module_globals =
     [''sub'', ''jinja2'', ''re'', ''pd'', ''np'', ''madx_syntax'', ''Simulator'',
      ''SimulatorException'', ''SUPPORTED_PROPERTIES'', ''SUPPORTED_CLASSES'',
      ''MadxException'', ''element_to_mad'', ''sequence_to_mad'', ''Madx'']"

definition match_scope ::
    "pyval option \<Rightarrow> pyval list option \<Rightarrow> (string \<times> pyval) list option \<Rightarrow> (string \<times> arg) list" where
  "match_scope seq vary constraints =
     [(''self'', Object ''self''),
      (''kwargs'', Object ''kwargs''),
      (''seq'', case seq of None \<Rightarrow> Val PNone | Some v \<Rightarrow> Val v),
      (''vary'', case vary of None \<Rightarrow> Val PNone | Some l \<Rightarrow> ListOf l),
      (''constraints'', case constraints of None \<Rightarrow> Val PNone | Some d \<Rightarrow> DictOf d)]
     @ map (\<lambda>n. (n, Object n)) module_globals"

definition load_name :: "(string \<times> arg) list \<Rightarrow> string \<Rightarrow> error + arg" where
  "load_name scope n = (case map_of scope n of None \<Rightarrow> Inl (NameError n) | Some a \<Rightarrow> Inr a)"

definition match :: "env \<Rightarrow> madx \<Rightarrow> match_kwargs \<Rightarrow> outcome" where
  "match E m kwargs =
     (let seq = kw_sequence kwargs;
          vary = kw_vary kwargs;
          constraints = kw_constraints kwargs
      in if (case seq of None \<Rightarrow> True | Some v \<Rightarrow> is_none v)
         then Raise (MadxException ''A sequence name must be provided.'') m
         else if (case vary of None \<Rightarrow> True | Some l \<Rightarrow> length l < 1)
         then Raise (MadxException ''A list of length > 0 of parameters must be provided.'') m
         else if constraints = None
         then Raise (MadxException ''A dictionary of constraints should be provided.'') m
         else (case load_name (match_scope seq vary constraints) ''sequence'' of
                 Inl x \<Rightarrow> Raise x m
               | Inr sequence \<Rightarrow> add_input E m ''match'' [sequence]))"

subsection \<open>A concrete environment and concrete inputs\<close>

text \<open>
  For the evaluation of the functions on examples: floats with one decimal digit print
  as Python prints them; a grammar with one template for each command used below, filled
  by replacing each \<open>{}\<close> with the next argument; a text without braces renders to itself
  and any other text is refused; no executable is found.
\<close>

definition repr1 :: "real \<Rightarrow> string" where
  "repr1 r = (if r < 0 then ''-'' else '''') @ str_nat (nat \<lfloor>\<bar>r\<bar>\<rfloor>) @ ''.''
               @ str_nat (nat \<lfloor>(\<bar>r\<bar> - of_int \<lfloor>\<bar>r\<bar>\<rfloor>) * 10\<rfloor>)"

definition str1 :: "pyval \<Rightarrow> string" where
  "str1 v = (case v of
       PNone \<Rightarrow> ''None''
     | PNaN \<Rightarrow> ''nan''
     | PFloat r \<Rightarrow> repr1 r
     | PInt i \<Rightarrow> str_int i
     | PStr s \<Rightarrow> s)"

fun arg_str :: "arg \<Rightarrow> string" where
  "arg_str (Val v) = str1 v"
| "arg_str (Row r) = join '', '' (map (\<lambda>(k, v). k @ ''='' @ str1 v) (items r))"
| "arg_str (ListOf l) = join '', '' (map str1 l)"
| "arg_str (DictOf d) = join '', '' (map (\<lambda>(k, v). k @ ''='' @ str1 v) d)"
| "arg_str (Object n) = n"

fun fill :: "string \<Rightarrow> string list \<Rightarrow> string" where
  "fill [] args = []"
| "fill [c] args = [c]"
| "fill (c # d # cs) args =
     (if c = CHR ''{'' \<and> d = CHR ''}''
      then (case args of [] \<Rightarrow> fill cs [] | a # rest \<Rightarrow> a @ fill cs rest)
      else c # fill (d # cs) args)"

definition grammar0 :: "(string \<times> string) list" where
  "grammar0 =
     [(''stop'', ''STOP;\<newline>''),
      (''use_sequence'', ''USE, SEQUENCE={};\<newline>''),
      (''makethin'', ''MAKETHIN, SEQUENCE={}, STYLE={};\<newline>''),
      (''track_beamline'', ''TRACK, ONEPASS=true;\<newline>''),
      (''start_particle'', ''START, {};\<newline>''),
      (''observe'', ''OBSERVE, PLACE={};\<newline>''),
      (''run_track_beamline'', ''RUN, TURNS=1;\<newline>''),
      (''end_track'', ''ENDTRACK;\<newline>''),
      (''match'', ''MATCH, SEQUENCE={};\<newline>'')]"

definition E0 :: env where
  "E0 = \<lparr>repr_float = repr1,
         madx_syntax = map_of grammar0,
         str_format = (\<lambda>template args. fill template (map arg_str args)),
         jinja2_render = (\<lambda>s ctx. if CHR ''{'' \<in> set s then Inl ''template syntax outside this environment'' else Inr s),
         which = (\<lambda>path exe. None),
         communicate = (\<lambda>exe stdin. '''')\<rparr>"

definition madx0 :: madx where
  "madx0 = \<lparr>self_input = '''', self_output = None, self_warnings = [], self_fatals = [],
            self_last_context = None, self_beamlines = [], self_path = None,
            self_exec = EXECUTABLE_NAME, printed = [], spawned = []\<rparr>"

text \<open>A line of three elements, given out of order: a quadrupole with an aperture and a
  circuit at 1.5, a marker at 0.5 and a drift (not a supported class) at 2.5.\<close>

definition line0 :: dataframe where
  "line0 = \<lparr>df_name = PStr ''LINE'', df_length = PFloat 3,
            columns = [''CLASS'', ''LENGTH'', ''AT_CENTER'', ''AT_EXIT'', ''K1'', ''APERTYPE'',
                       ''APERTURE'', ''CIRCUIT''],
            rows = [(PStr ''Q1'', [PStr ''QUADRUPOLE'', PFloat 1, PFloat 1.5, PFloat 2, PFloat 0.5,
                                   PStr ''CIRCLE'', PStr ''[0.1]'', PStr ''Q1C'']),
                    (PStr ''D1'', [PStr ''DRIFT'', PFloat 1, PFloat 2.5, PFloat 3, PNaN,
                                   PNone, PNone, PNone]),
                    (PStr ''M1'', [PStr ''MARKER'', PFloat 0, PFloat 0.5, PFloat 0.5, PNaN,
                                   PNone, PNone, PNone])]\<rparr>"

definition beamline0 :: beamline where
  "beamline0 = \<lparr>bl_name = PStr ''LINE'', bl_length = PFloat 3, line = Some line0\<rparr>"

definition particles0 :: dataframe where
  "particles0 = \<lparr>df_name = PNone, df_length = PNone,
                 columns = [''X'', ''PX'', ''Y'', ''PY'', ''DPP''],
                 rows = [(PInt 0, [PFloat 0, PFloat 0, PFloat 0, PFloat 0, PFloat 0])]\<rparr>"

section \<open>Properties of the transfer matrices\<close>

text \<open>
  C5. When the bend-angle field of an element is exactly zero, \<open>sbend\<close> returns what
  \<open>drift\<close> returns for that element (the same matrix, or the same \<open>IndexError\<close> when the
  length column is out of range); for a length \<open>L\<close> that matrix is the identity with
  \<open>L\<close> at positions (1,2) and (3,4), which maps \<open>(x, x', y, y', d)\<close> to
  \<open>(x + L x', x', y + L y', y', d)\<close>.
\<close>

theorem sbend_zero_angle_is_drift:
  assumes "getitem e (INDEX_ANGLE K) = Inr 0"
  shows "sbend K e = drift K e
    \<and> (\<forall>L. getitem e (INDEX_LENGTH K) = Inr L \<longrightarrow>
          sbend K e = Inr (spec_drift L)
          \<and> (\<forall>x x' y y' d. matvec (spec_drift L) [x, x', y, y', d]
                = [x + L * x', x', y + L * y', y', d]))"
  using assms by (simp add: sbend_def drift_def spec_drift_def matvec_def dot_def)

theorem sbend_zero_angle_is_drift_witness:
  "getitem [0, 2, 0, 0, 0] (INDEX_ANGLE K0) = Inr 0
   \<and> sbend K0 [0, 2, 0, 0, 0] = drift K0 [0, 2, 0, 0, 0]
   \<and> sbend K0 [0, 2, 0, 0, 0] = Inr (spec_drift 2)
   \<and> matvec (spec_drift 2) [1, 3, 0, 0, 0] = [7, 3, 0, 0, 0]"
proof -
  have a: "getitem [0, 2, 0, 0, 0] (INDEX_ANGLE K0) = Inr 0"
    by (simp add: getitem_def K0_def)
  have l: "getitem [0, 2, 0, 0, 0] (INDEX_LENGTH K0) = Inr 2"
    by (simp add: getitem_def K0_def)
  note main = sbend_zero_angle_is_drift [OF a]
  from main have 1: "sbend K0 [0, 2, 0, 0, 0] = drift K0 [0, 2, 0, 0, 0]"
    by (rule conjunct1)
  from main l have 2: "sbend K0 [0, 2, 0, 0, 0] = Inr (spec_drift 2)"
    by blast
  from main l have "matvec (spec_drift 2) [1, 3, 0, 0, 0] = [1 + 2 * 3, 3, 0 + 2 * 0, 0, 0]"
    by blast
  then have 3: "matvec (spec_drift 2) [1, 3, 0, 0, 0] = [7, 3, 0, 0, 0]"
    by simp
  from a 1 2 3 show ?thesis
    by (intro conjI)
qed

text \<open>
  The edge matrices compose associatively with the core matrix, and the product acts on
  a coordinate vector as entrance edge first, core next, exit edge last.
\<close>

lemma edge_core_edge_assoc:
  "matmul (matmul (spec_thin_edge k2) (spec_core_bend L \<theta>)) (spec_thin_edge k1)
   = matmul (spec_thin_edge k2) (matmul (spec_core_bend L \<theta>) (spec_thin_edge k1))"
  by (simp add: spec_core_bend_def spec_thin_edge_def matmul_def dot_def algebra_simps)

lemma matvec_edge_core_edge:
  "matvec (matmul (spec_thin_edge k2) (matmul (spec_core_bend L \<theta>) (spec_thin_edge k1)))
     [x, x', y, y', d]
   = matvec (spec_thin_edge k2)
       (matvec (spec_core_bend L \<theta>) (matvec (spec_thin_edge k1) [x, x', y, y', d]))"
  by (simp add: spec_core_bend_def spec_thin_edge_def matmul_def matvec_def dot_def
      algebra_simps diff_divide_distrib add_divide_distrib)

lemma sbend_nonzero_angle:
  assumes "getitem e (INDEX_ANGLE K) = Inr \<theta>" and "\<theta> \<noteq> 0"
    and "getitem e (INDEX_LENGTH K) = Inr L"
    and "getitem e (INDEX_E1 K) = Inr e1"
    and "getitem e (INDEX_E2 K) = Inr e2"
  shows "sbend K e =
    Inr (if e1 = 0 \<and> e2 = 0 then spec_core_bend L \<theta>
         else matmul (matmul (spec_thin_edge (spec_fringe e2 L \<theta>)) (spec_core_bend L \<theta>))
                (spec_thin_edge (spec_fringe e1 L \<theta>)))"
  using assms
  by (simp add: sbend_def Let_def spec_fringe_def spec_core_bend_def spec_thin_edge_def
      mult.commute)

text \<open>
  C3. For an element with bend angle \<open>\<theta> \<noteq> 0\<close>, length \<open>L\<close> and face angles \<open>e1\<close>, \<open>e2\<close>:
  when \<open>e1 = e2 = 0\<close> the matrix computed by \<open>sbend\<close> is the core bend matrix of the
  specification; otherwise it is the product exit edge . core . entrance edge of the
  specification's thin-edge matrices with \<open>k = - tan(e) / (L / \<theta>)\<close>, and applying it to
  coordinates applies the entrance edge first and the exit edge last. (Division is the
  total division of the reals; for \<open>L = 0\<close> both sides contain the same quotient.)
\<close>

theorem sbend_core_and_edges:
  assumes "getitem e (INDEX_ANGLE K) = Inr \<theta>" and "\<theta> \<noteq> 0"
    and "getitem e (INDEX_LENGTH K) = Inr L"
    and "getitem e (INDEX_E1 K) = Inr e1"
    and "getitem e (INDEX_E2 K) = Inr e2"
  shows "(e1 = 0 \<and> e2 = 0 \<longrightarrow> sbend K e = Inr (spec_core_bend L \<theta>))
    \<and> (\<not> (e1 = 0 \<and> e2 = 0) \<longrightarrow>
         (\<exists>M. sbend K e = Inr M
            \<and> M = matmul (spec_thin_edge (spec_fringe e2 L \<theta>))
                    (matmul (spec_core_bend L \<theta>) (spec_thin_edge (spec_fringe e1 L \<theta>)))
            \<and> (\<forall>x x' y y' d. matvec M [x, x', y, y', d] =
                  matvec (spec_thin_edge (spec_fringe e2 L \<theta>))
                    (matvec (spec_core_bend L \<theta>)
                      (matvec (spec_thin_edge (spec_fringe e1 L \<theta>)) [x, x', y, y', d])))))"
  using sbend_nonzero_angle [OF assms]
  by (simp add: edge_core_edge_assoc matvec_edge_core_edge)

theorem sbend_core_and_edges_witness:
  "sbend K0 [1, 2, 0, 0, 0] = Inr (spec_core_bend 2 1)
   \<and> sbend K0 [1, 2, 3, 0, 0]
       = Inr (matmul (spec_thin_edge (spec_fringe 0 2 1))
               (matmul (spec_core_bend 2 1) (spec_thin_edge (spec_fringe 3 2 1))))"
proof -
  have a: "getitem [1, 2, 0, 0, 0] (INDEX_ANGLE K0) = Inr 1"
    and l: "getitem [1, 2, 0, 0, 0] (INDEX_LENGTH K0) = Inr 2"
    and f1: "getitem [1, 2, 0, 0, 0] (INDEX_E1 K0) = Inr 0"
    and f2: "getitem [1, 2, 0, 0, 0] (INDEX_E2 K0) = Inr 0"
    by (simp_all add: getitem_def K0_def)
  have a': "getitem [1, 2, 3, 0, 0] (INDEX_ANGLE K0) = Inr 1"
    and l': "getitem [1, 2, 3, 0, 0] (INDEX_LENGTH K0) = Inr 2"
    and f1': "getitem [1, 2, 3, 0, 0] (INDEX_E1 K0) = Inr 3"
    and f2': "getitem [1, 2, 3, 0, 0] (INDEX_E2 K0) = Inr 0"
    by (simp_all add: getitem_def K0_def)
  have nz: "(1::real) \<noteq> 0" by simp
  from sbend_core_and_edges [OF a nz l f1 f2]
  have 1: "sbend K0 [1, 2, 0, 0, 0] = Inr (spec_core_bend 2 1)"
    by simp
  from sbend_core_and_edges [OF a' nz l' f1' f2']
  have 2: "sbend K0 [1, 2, 3, 0, 0]
       = Inr (matmul (spec_thin_edge (spec_fringe 0 2 1))
               (matmul (spec_core_bend 2 1) (spec_thin_edge (spec_fringe 3 2 1))))"
    by simp
  from 1 2 show ?thesis by (rule conjI)
qed

text \<open>
  C4. For a quadrupole with strength \<open>k > 0\<close> and length \<open>L\<close>, the entries (1,1) and (2,2)
  of the computed matrix are \<open>cos(sqrt k * L)\<close>, the horizontal block is the trigonometric
  block and the vertical block the hyperbolic block for \<open>\<kappa> = sqrt k\<close>; for an element
  with the same length and strength \<open>- k\<close> the horizontal block is the hyperbolic and the
  vertical block the trigonometric one, so the two blocks are exactly exchanged.
\<close>

theorem quadrupole_blocks:
  assumes "getitem e (INDEX_LENGTH K) = Inr L" and "getitem e (INDEX_K1 K) = Inr k" and "0 < k"
    and "getitem e' (INDEX_LENGTH K) = Inr L" and "getitem e' (INDEX_K1 K) = Inr (- k)"
  shows "\<exists>M M'. quadrupole K e = Inr M \<and> quadrupole K e' = Inr M'
           \<and> M ! 0 ! 0 = cos (sqrt k * L) \<and> M ! 1 ! 1 = cos (sqrt k * L)
           \<and> block 0 M = spec_trig_block (sqrt k) L \<and> block 2 M = spec_hyp_block (sqrt k) L
           \<and> block 0 M' = spec_hyp_block (sqrt k) L \<and> block 2 M' = spec_trig_block (sqrt k) L
           \<and> block 0 M' = block 2 M \<and> block 2 M' = block 0 M"
  using assms
  by (simp add: quadrupole_def Let_def block_def spec_trig_block_def spec_hyp_block_def
      numeral_2_eq_2 numeral_3_eq_3)

theorem quadrupole_blocks_witness:
  "\<exists>M M'. quadrupole K0 [0, 2, 0, 0, 4] = Inr M \<and> quadrupole K0 [0, 2, 0, 0, - 4] = Inr M'
     \<and> M ! 0 ! 0 = cos (sqrt 4 * 2) \<and> block 0 M = spec_trig_block (sqrt 4) 2
     \<and> block 0 M' = block 2 M \<and> block 2 M' = block 0 M"
proof -
  have 1: "getitem [0, 2, 0, 0, 4] (INDEX_LENGTH K0) = Inr 2"
    and 2: "getitem [0, 2, 0, 0, 4] (INDEX_K1 K0) = Inr 4"
    and 3: "getitem [0, 2, 0, 0, - 4] (INDEX_LENGTH K0) = Inr 2"
    and 4: "getitem [0, 2, 0, 0, - 4] (INDEX_K1 K0) = Inr (- 4)"
    by (simp_all add: getitem_def K0_def)
  have 5: "(0::real) < 4" by simp
  from quadrupole_blocks [OF 1 2 5 3 4] show ?thesis by blast
qed
section \<open>Properties of element_to_mad\<close>








text \<open>
  C7. An element whose class field is not one of the eight supported classes is
  translated to the empty string.
\<close>

theorem element_to_mad_unsupported:
  assumes "getattr e ''CLASS'' = Inr cls" and "cls \<notin> set (map PStr SUPPORTED_CLASSES)"
  shows "element_to_mad E e = Inr ''''"
  using assms by (simp add: element_to_mad_def)

theorem element_to_mad_unsupported_witness:
  "element_to_mad E0 \<lparr>name = PStr ''D1'',
      items = [(''CLASS'', PStr ''DRIFT''), (''LENGTH'', PFloat 1), (''AT_CENTER'', PFloat 2.5)]\<rparr>
   = Inr []"
proof -
  let ?e = "\<lparr>name = PStr ''D1'',
      items = [(''CLASS'', PStr ''DRIFT''), (''LENGTH'', PFloat 1), (''AT_CENTER'', PFloat 2.5)]\<rparr>"
  have 1: "getattr ?e ''CLASS'' = Inr (PStr ''DRIFT'')"
    by (simp add: getattr_def)
  have 2: "PStr ''DRIFT'' \<notin> set (map PStr SUPPORTED_CLASSES)"
    by (simp add: SUPPORTED_CLASSES_def)
  from element_to_mad_unsupported [OF 1 2] show ?thesis .
qed



section \<open>Properties of the wrapper\<close>

text \<open>Reading the executable does not depend on the buffer or on what was printed.\<close>

lemma get_exec_input [simp]: "get_exec E (m\<lparr>self_input := i\<rparr>) = get_exec E m"
  by (simp add: get_exec_def)

lemma get_exec_printed [simp]: "get_exec E (m\<lparr>printed := p\<rparr>) = get_exec E m"
  by (simp add: get_exec_def)

text \<open>
  The validation of \<open>match\<close>: without a sequence name, without a non-empty list to vary
  or without constraints the call raises \<open>MadxException\<close> and leaves the wrapper as it was.
\<close>

lemma match_validation:
  assumes "(case kw_sequence kwargs of None \<Rightarrow> True | Some v \<Rightarrow> is_none v)
           \<or> (case kw_vary kwargs of None \<Rightarrow> True | Some l \<Rightarrow> l = [])
           \<or> kw_constraints kwargs = None"
  shows "\<exists>msg. match E m kwargs = Raise (MadxException msg) m"
  using assms by (auto simp: match_def Let_def split: option.splits)

lemma sequence_unbound: "load_name (match_scope seq vary constraints) ''sequence'' = Inl (NameError ''sequence'')"
  by (simp add: load_name_def match_scope_def module_globals_def)

text \<open>
  C1. With a sequence name, a non-empty list to vary and constraints, \<open>match\<close> does not
  issue the match command: reading the name \<open>sequence\<close>, which is bound nowhere, raises
  \<open>NameError\<close>, and the buffer is left as it was.
\<close>

theorem match_raises_name_error:
  assumes "kw_sequence kwargs = Some s" and "\<not> is_none s"
    and "kw_vary kwargs = Some l" and "l \<noteq> []"
    and "kw_constraints kwargs = Some d"
  shows "match E m kwargs = Raise (NameError ''sequence'') m"
  using assms by (simp add: match_def Let_def sequence_unbound)

theorem match_raises_name_error_witness:
  "match E0 madx0 \<lparr>kw_sequence = Some (PStr ''LINE''), kw_vary = Some [PStr ''K1''],
                    kw_constraints = Some [(''BETX'', PFloat 1)]\<rparr>
   = Raise (NameError ''sequence'') madx0
   \<and> (\<exists>msg. match E0 madx0 \<lparr>kw_sequence = Some (PStr ''LINE''), kw_vary = Some [],
                              kw_constraints = Some [(''BETX'', PFloat 1)]\<rparr>
              = Raise (MadxException msg) madx0)"
proof -
  have 1: "match E0 madx0 \<lparr>kw_sequence = Some (PStr ''LINE''), kw_vary = Some [PStr ''K1''],
                    kw_constraints = Some [(''BETX'', PFloat 1)]\<rparr>
           = Raise (NameError ''sequence'') madx0"
    by (rule match_raises_name_error [where s = "PStr ''LINE''" and l = "[PStr ''K1'']"
          and d = "[(''BETX'', PFloat 1)]"]) simp_all
  have 2: "\<exists>msg. match E0 madx0 \<lparr>kw_sequence = Some (PStr ''LINE''), kw_vary = Some [],
                              kw_constraints = Some [(''BETX'', PFloat 1)]\<rparr>
              = Raise (MadxException msg) madx0"
    by (rule match_validation) simp
  from 1 2 show ?thesis
    by (rule conjI)
qed



text \<open>
  C9. When \<open>run\<close> raises the exception of the missing executable, the state that the
  wrapper keeps has the stop template appended to the buffer that \<open>run\<close> found: the
  failed call is not undone, and it has changed the wrapper whenever that template is not
  empty.
\<close>

theorem run_not_atomic:
  assumes "run E m kwargs = Raise (MadxException msg) m'"
  shows "get_exec E m = None \<and> msg = no_executable
         \<and> (\<exists>stop. madx_syntax E ''stop'' = Some stop
               \<and> self_input m' = self_input m @ stop
               \<and> (stop \<noteq> [] \<longrightarrow> m' \<noteq> m))"
proof -
  from assms have 1: "get_exec E m = None \<and> msg = no_executable
      \<and> (\<exists>stop. madx_syntax E ''stop'' = Some stop \<and> self_input m' = self_input m @ stop)"
    by (auto simp: run_def Let_def split: option.splits sum.splits if_splits)
  then obtain stop where 2: "madx_syntax E ''stop'' = Some stop"
      and 3: "self_input m' = self_input m @ stop"
    by blast
  have "m' \<noteq> m" if "stop \<noteq> []"
  proof
    assume "m' = m"
    with 3 have "self_input m = self_input m @ stop"
      by simp
    with that show False
      by simp
  qed
  with 1 2 3 show ?thesis
    by blast
qed

theorem run_not_atomic_witness:
  "run E0 madx0 \<lparr>kw_context = None, kw_debug = None\<rparr>
     = Raise (MadxException no_executable) (madx0\<lparr>self_input := ''STOP;\<newline>''\<rparr>)
   \<and> self_input (madx0\<lparr>self_input := ''STOP;\<newline>''\<rparr>) = self_input madx0 @ ''STOP;\<newline>''
   \<and> madx0\<lparr>self_input := ''STOP;\<newline>''\<rparr> \<noteq> madx0"
proof -
  let ?kw = "\<lparr>kw_context = None, kw_debug = None\<rparr>"
  let ?m' = "madx0\<lparr>self_input := ''STOP;\<newline>''\<rparr>"
  have s: "madx_syntax E0 ''stop'' = Some ''STOP;\<newline>''"
    by (simp add: E0_def grammar0_def)
  have 1: "run E0 madx0 ?kw = Raise (MadxException no_executable) ?m'"
    by (simp add: run_def Let_def E0_def grammar0_def madx0_def get_exec_def)
  from run_not_atomic [OF 1] s
  have 2: "self_input ?m' = self_input madx0 @ ''STOP;\<newline>'' \<and> ?m' \<noteq> madx0"
    by auto
  from 1 2 show ?thesis by blast
qed

section \<open>Properties of the plain tracking variant\<close>

text \<open>With no particle, \<open>__madx_track\<close> prints its notice and changes nothing else.\<close>

lemma madx_track_no_particles:
  assumes "rows particles = []"
  shows "madx_track E m particles beamline kwargs
         = Return (m\<lparr>printed := printed m @ [''No particles to track... Doing nothing.'']\<rparr>)"
  using assms by (simp add: madx_track_def)

lemma no_such_method:
  "call_method E m ''_add_particles_for_tracking'' particles
   = Raise (AttributeError ''_add_particles_for_tracking'') m"
  by (simp add: call_method_def Madx_particle_methods_def Simulator_particle_methods_def)

text \<open>
  C8. With at least one particle, \<open>__madx_track\<close> never returns: once the beamline is
  thinned and the track-beamline command is issued, the lookup of the attribute
  \<open>_add_particles_for_tracking\<close> raises \<open>AttributeError\<close>, and the wrapper keeps the state
  of that moment. No particle is injected, no observation point is emitted, and the
  track is neither run nor ended.
\<close>

theorem madx_track_raises_attribute_error:
  assumes "rows particles \<noteq> []"
  shows "(case then_do (makethin E m (bl_name beamline) kwargs)
                 (\<lambda>m. add_input E m ''track_beamline'' []) of
            Return m1 \<Rightarrow>
              madx_track E m particles beamline kwargs
              = Raise (AttributeError ''_add_particles_for_tracking'') m1
          | Raise x m1 \<Rightarrow> madx_track E m particles beamline kwargs = Raise x m1)"
proof (cases "makethin E m (bl_name beamline) kwargs")
  case (Raise x m1)
  with assms show ?thesis
    by (simp add: madx_track_def)
next
  case (Return m1)
  with assms show ?thesis
    by (cases "add_input E m1 ''track_beamline'' []")
      (simp_all add: madx_track_def no_such_method)
qed

theorem madx_track_raises_attribute_error_witness:
  "madx_track E0 madx0 particles0 beamline0
     \<lparr>kw_style = None, kw_dipole_slices = None, kw_quadrupole_slices = None\<rparr>
   = Raise (AttributeError ''_add_particles_for_tracking'')
       (madx0\<lparr>self_input :=
          ''SELECT, FLAG=makethin, CLASS=quadrupole, THICK=false, SLICE=4;\<newline>''
          @ ''SELECT, FLAG=makethin, CLASS=rbend, THICK=false, SLICE=4;\<newline>''
          @ ''MAKETHIN, SEQUENCE=LINE, STYLE=TEAPOT;\<newline>''
          @ ''USE, SEQUENCE=LINE;\<newline>''
          @ ''TRACK, ONEPASS=true;\<newline>''\<rparr>)
   \<and> madx_track E0 madx0 (particles0\<lparr>rows := []\<rparr>) beamline0
       \<lparr>kw_style = None, kw_dipole_slices = None, kw_quadrupole_slices = None\<rparr>
     = Return (madx0\<lparr>printed := [''No particles to track... Doing nothing.'']\<rparr>)"
proof -
  let ?kw = "\<lparr>kw_style = None, kw_dipole_slices = None, kw_quadrupole_slices = None\<rparr>"
  let ?m1 = "madx0\<lparr>self_input :=
          ''SELECT, FLAG=makethin, CLASS=quadrupole, THICK=false, SLICE=4;\<newline>''
          @ ''SELECT, FLAG=makethin, CLASS=rbend, THICK=false, SLICE=4;\<newline>''
          @ ''MAKETHIN, SEQUENCE=LINE, STYLE=TEAPOT;\<newline>''
          @ ''USE, SEQUENCE=LINE;\<newline>''
          @ ''TRACK, ONEPASS=true;\<newline>''\<rparr>"
  have p: "rows particles0 \<noteq> []"
    by (simp add: particles0_def)
  have t: "then_do (makethin E0 madx0 (bl_name beamline0) ?kw)
             (\<lambda>m. add_input E0 m ''track_beamline'' []) = Return ?m1"
    by (simp add: makethin_def use_sequence_def add_input_def Let_def E0_def grammar0_def
        madx0_def beamline0_def py_str_def str1_def str_int_def str_nat.simps)
  from madx_track_raises_attribute_error [OF p, of E0 madx0 beamline0 ?kw] t
  have 1: "madx_track E0 madx0 particles0 beamline0 ?kw
           = Raise (AttributeError ''_add_particles_for_tracking'') ?m1"
    by simp
  have "rows (particles0\<lparr>rows := []\<rparr>) = []"
    by simp
  from madx_track_no_particles [OF this, of E0 madx0 beamline0 ?kw]
  have 2: "madx_track E0 madx0 (particles0\<lparr>rows := []\<rparr>) beamline0 ?kw
           = Return (madx0\<lparr>printed := [''No particles to track... Doing nothing.'']\<rparr>)"
    by (simp add: madx0_def)
  from 1 2 show ?thesis
    by (rule conjI)
qed

section \<open>Properties of sequence_to_mad\<close>







end
